theory Spec2Isabelle
  imports Complex_Main
begin

section \<open>The traffic-light detector node (\<open>tl_detector.py\<close>)\<close>

text \<open>
  A shallow embedding of class \<open>TLDetector\<close>. The object's attributes are the fields of a
  record that every callback takes and returns; a raised exception is the \<open>Inl\<close> of a
  sum, returned together with the attributes as they stand at the raise (rospy logs an
  exception of a callback and keeps the node running).

  Coordinates are finite Python floats (binary64), each of which is a real number. What
  the code computes from them is a float that may also be an infinity or \<open>NaN\<close>, and
  how the arithmetic rounds is not fixed here: the operations are parameters.
\<close>

subsection \<open>Values and collaborators\<close>

type_synonym point = "real \<times> real"

datatype error = AttributeError string | IndexError | ValueError

text \<open>
  The values that reach the attribute \<open>state\<close>: an integer colour identifier, or the
  \<open>False\<close> that \<open>get_light_state\<close> returns without an image. Python compares them by
  numeric value (\<open>False == 0\<close>).
\<close>

datatype pyval = PyInt int | PyBool bool

fun py_int :: "pyval \<Rightarrow> int" where
  "py_int (PyInt i) = i"
| "py_int (PyBool b) = (if b then 1 else 0)"

definition py_eq :: "pyval \<Rightarrow> pyval \<Rightarrow> bool" where
  "py_eq a b = (py_int a = py_int b)"

text \<open>
  The colour identifiers \<open>TrafficLight.RED\<close>, ... of the message declaration
  \<open>styx_msgs/TrafficLight\<close>, which is not among the sources: the functions take them as a
  parameter.
\<close>

record TrafficLight_ids =
  RED :: int
  YELLOW :: int
  GREEN :: int
  UNKNOWN :: int

text \<open>
  Modelled from the spec: the colour states \<open>{RED, YELLOW, GREEN, UNKNOWN}\<close> of a
  traffic light, with the numbers the message declaration \<open>styx_msgs/TrafficLight\<close>
  (missing from the sources) gives them; \<open>RED = 0\<close> is the value that coincides with
  \<open>False\<close>. Used only where a closed example needs concrete identifiers.
\<close>

definition styx_ids :: TrafficLight_ids where
  "styx_ids = \<lparr>RED = 0, YELLOW = 1, GREEN = 2, UNKNOWN = 4\<rparr>"

text \<open>A \<open>TrafficLight\<close> message: only its ground-truth \<open>state\<close> field is read.\<close>

datatype TrafficLight = TrafficLight (tl_state: int)

text \<open>
  A Python float: a finite binary64 number by its real value, an infinity, or \<open>NaN\<close>.
  \<open>float_less\<close> is Python's \<open><\<close> on floats, which does not round: \<open>NaN\<close> is below
  nothing and nothing is below \<open>NaN\<close>.
\<close>

datatype pyfloat = Finite real | PosInf | NegInf | NaN

fun float_less :: "pyfloat \<Rightarrow> pyfloat \<Rightarrow> bool" where
  "float_less (Finite a) (Finite b) = (a < b)"
| "float_less (Finite a) PosInf = True"
| "float_less NegInf (Finite b) = True"
| "float_less NegInf PosInf = True"
| "float_less a b = False"

text \<open>
  What the node is run with: the colour identifiers, the classifier applied to the decoded
  camera image (\<open>light_classifier.get_classification\<close> after \<open>bridge.imgmsg_to_cv2\<close>),
  \<open>KDTree.query(p, 1)[1]\<close> of scipy as a function of the points the tree was built from,
  and the float arithmetic: \<open>-\<close>, \<open>*\<close> and \<open>+\<close> on floats, \<open>math.sqrt\<close>, and \<open>np.dot\<close> on
  two vectors of length 2. \<open>math.sqrt\<close> raises on a negative argument only; it is applied
  to a sum of two squares, which binary64 never makes negative, so no raise is modelled.
\<close>

record 'img collaborators =
  ids :: TrafficLight_ids
  get_classification :: "'img \<Rightarrow> int"
  query :: "point list \<Rightarrow> point \<Rightarrow> int"
  float_sub :: "pyfloat \<Rightarrow> pyfloat \<Rightarrow> pyfloat"
  float_mul :: "pyfloat \<Rightarrow> pyfloat \<Rightarrow> pyfloat"
  float_add :: "pyfloat \<Rightarrow> pyfloat \<Rightarrow> pyfloat"
  math_sqrt :: "pyfloat \<Rightarrow> pyfloat"
  np_dot :: "pyfloat \<times> pyfloat \<Rightarrow> pyfloat \<times> pyfloat \<Rightarrow> pyfloat"

subsection \<open>The attributes of the node\<close>

text \<open>
  \<open>has_image\<close> is \<open>None\<close> while the attribute does not exist: \<open>__init__\<close> never assigns it.
  \<open>prev_light_loc_assigned\<close> records that \<open>self.prev_light_loc = None\<close> has run.
  \<open>waypoint_tree\<close> holds the points the tree was built from. The last three fields are the
  traces of the calls to the output publisher, to the classifier and of the labels
  written to the dataset file.
\<close>

record 'img TLDetector =
  pose :: "point option"
  previous_pose :: "point option"
  waypoints :: "point list option"
  waypoints_2d :: "point list option"
  waypoint_tree :: "point list option"
  camera_image :: "'img option"
  lights :: "TrafficLight list"
  stop_line_positions :: "point list"
  has_image :: "bool option"
  prev_light_loc_assigned :: bool
  state :: pyval
  last_state :: pyval
  last_wp :: int
  state_count :: int
  image_write_ts :: nat
  published :: "int list"
  classified :: "'img list"
  dataset_file :: "int list"

definition STATE_COUNT_THRESHOLD :: int where
  "STATE_COUNT_THRESHOLD = 3"

definition LIGHT_DISTANCE_THRESHOLD :: real where
  "LIGHT_DISTANCE_THRESHOLD = 50"

definition GENERATE_DATASET :: bool where
  "GENERATE_DATASET = True"

definition IMAGE_CAPTURE_DISTANCE :: real where
  "IMAGE_CAPTURE_DISTANCE = 100"

text \<open>
  \<open>__init__\<close>, given the \<open>stop_line_positions\<close> of the loaded configuration. Nothing about
  the configuration is checked, and \<open>has_image\<close> is not assigned.
\<close>

definition init :: "TrafficLight_ids \<Rightarrow> point list \<Rightarrow> 'img TLDetector" where
  "init c config =
     \<lparr>pose = None, previous_pose = None, waypoints = None, waypoints_2d = None,
      waypoint_tree = None, camera_image = None, lights = [],
      stop_line_positions = config, has_image = None, prev_light_loc_assigned = False,
      state = PyInt (UNKNOWN c), last_state = PyInt (UNKNOWN c), last_wp = - 1,
      state_count = 0, image_write_ts = 0, published = [], classified = [],
      dataset_file = []\<rparr>"

subsection \<open>The callbacks of the input feeds\<close>

definition pose_cb :: "'img TLDetector \<Rightarrow> point \<Rightarrow> 'img TLDetector" where
  "pose_cb s msg = s\<lparr>previous_pose := pose s, pose := Some msg\<rparr>"

text \<open>
  \<open>KDTree(data)\<close> of scipy: an empty list is not an array of shape \<open>(n, m)\<close> and the
  constructor raises \<open>ValueError\<close>.
\<close>

definition KDTree :: "point list \<Rightarrow> error + point list" where
  "KDTree data = (if data = [] then Inl ValueError else Inr data)"

text \<open>\<open>not self.waypoints_2d\<close> holds of \<open>None\<close> and of the empty list.\<close>

definition waypoints_cb ::
  "'img TLDetector \<Rightarrow> point list \<Rightarrow> (error + unit) \<times> 'img TLDetector" where
  "waypoints_cb s wps =
     (let s1 = s\<lparr>waypoints := Some wps\<rparr> in
      if waypoints_2d s1 = None \<or> waypoints_2d s1 = Some [] then
        (let s2 = s1\<lparr>waypoints_2d := Some wps\<rparr> in
         case KDTree wps of
           Inl e \<Rightarrow> (Inl e, s2)
         | Inr t \<Rightarrow> (Inr (), s2\<lparr>waypoint_tree := Some t\<rparr>))
      else (Inr (), s1))"

definition traffic_cb :: "'img TLDetector \<Rightarrow> TrafficLight list \<Rightarrow> 'img TLDetector" where
  "traffic_cb s msg = s\<lparr>lights := msg\<rparr>"

subsection \<open>Nearest waypoint and light state\<close>

definition get_closest_waypoint ::
  "'img collaborators \<Rightarrow> 'img TLDetector \<Rightarrow> real \<Rightarrow> real \<Rightarrow> error + int" where
  "get_closest_waypoint e s x y =
     (case waypoint_tree s of
        None \<Rightarrow> Inl (AttributeError ''query'')
      | Some tree \<Rightarrow> Inr (query e tree (x, y)))"

definition get_light_state ::
  "'img collaborators \<Rightarrow> 'img TLDetector \<Rightarrow> TrafficLight \<Rightarrow> (error + pyval) \<times> 'img TLDetector" where
  "get_light_state e s light =
     (case has_image s of
        None \<Rightarrow> (Inl (AttributeError ''has_image''), s)
      | Some False \<Rightarrow> (Inr (PyBool False), s\<lparr>prev_light_loc_assigned := True\<rparr>)
      | Some True \<Rightarrow>
          (case camera_image s of
             None \<Rightarrow> (Inl (AttributeError ''encoding''), s)
           | Some img \<Rightarrow>
               (Inr (PyInt (get_classification e img)), s\<lparr>classified := classified s @ [img]\<rparr>)))"

text \<open>
  \<open>try_image_capture\<close>, with the reading \<open>now\<close> of the clock (in nanoseconds) as an input;
  \<open>rospy.Duration(0.2)\<close> is 200000000 ns. The image file itself is not modelled.
\<close>

definition try_image_capture ::
  "nat \<Rightarrow> 'img TLDetector \<Rightarrow> TrafficLight \<Rightarrow> pyfloat \<Rightarrow> (error + unit) \<times> 'img TLDetector" where
  "try_image_capture now s light light_distance =
     (if float_less (Finite IMAGE_CAPTURE_DISTANCE) light_distance then (Inr (), s)
      else case camera_image s of
        None \<Rightarrow> (Inl (AttributeError ''encoding''), s)
      | Some img \<Rightarrow>
         (case has_image s of
            None \<Rightarrow> (Inl (AttributeError ''has_image''), s)
          | Some h \<Rightarrow>
              if h \<and> (\<not> py_eq (state s) (PyInt (tl_state light))
                       \<or> now \<ge> image_write_ts s + 200000000)
              then (Inr (), s\<lparr>image_write_ts := now,
                                dataset_file := dataset_file s @ [tl_state light]\<rparr>)
              else (Inr (), s)))"

subsection \<open>Selecting the candidate light\<close>

text \<open>
  The loop of \<open>process_traffic_lights\<close> over \<open>enumerate(self.lights)\<close>, from index \<open>idx\<close>
  on. The accumulator is \<open>(light_distance, closest_light, stop_line_idx)\<close>;
  \<open>stop_line_positions[idx]\<close> raises \<open>IndexError\<close> beyond the end of the list. \<open>p\<close> is the
  position of \<open>self.pose\<close>, \<open>q\<close> that of \<open>self.previous_pose\<close>.
\<close>

type_synonym candidate = "pyfloat \<times> TrafficLight option \<times> int"

fun lights_loop ::
  "'img collaborators \<Rightarrow> point \<Rightarrow> point \<Rightarrow> point list \<Rightarrow> nat \<Rightarrow> TrafficLight list \<Rightarrow> candidate
     \<Rightarrow> error + candidate" where
  "lights_loop e p q sl idx [] acc = Inr acc"
| "lights_loop e p q sl idx (light # rest) acc =
     (if idx < length sl then
        (let stop_line_position = sl ! idx;
             diff_x = float_sub e (Finite (fst p)) (Finite (fst stop_line_position));
             diff_y = float_sub e (Finite (snd p)) (Finite (snd stop_line_position));
             distance = math_sqrt e (float_add e (float_mul e diff_x diff_x)
                                                 (float_mul e diff_y diff_y));
             previous_car_vect = (Finite (fst q), Finite (snd q));
             car_vect = (Finite (fst p), Finite (snd p));
             light_vect = (Finite (fst stop_line_position), Finite (snd stop_line_position));
             val = np_dot e
                     (float_sub e (fst light_vect) (fst car_vect),
                      float_sub e (snd light_vect) (snd car_vect))
                     (float_sub e (fst car_vect) (fst previous_car_vect),
                      float_sub e (snd car_vect) (snd previous_car_vect))
         in if float_less (Finite 0) val \<and> float_less distance (fst acc)
            then lights_loop e p q sl (Suc idx) rest (distance, Some light, int idx)
            else lights_loop e p q sl (Suc idx) rest acc)
      else Inl IndexError)"

text \<open>
  Lines 175 to 198 of \<open>process_traffic_lights\<close>: the initial values, the test that both
  poses are present, the loop.
\<close>

definition select_candidate :: "'img collaborators \<Rightarrow> 'img TLDetector \<Rightarrow> error + candidate" where
  "select_candidate e s =
     (case (pose s, previous_pose s) of
        (Some p, Some q) \<Rightarrow>
           lights_loop e p q (stop_line_positions s) 0 (lights s) (PosInf, None, - 1)
      | _ \<Rightarrow> Inr (PosInf, None, - 1))"

subsection \<open>Processing a frame\<close>

text \<open>
  \<open>xs[i]\<close> on a Python list: positions \<open>-len(xs)\<close> to \<open>-1\<close> are read from the end,
  anything outside \<open>-len(xs) .. len(xs) - 1\<close> raises.
\<close>

definition py_index :: "'a list \<Rightarrow> int \<Rightarrow> error + 'a" where
  "py_index xs i =
     (if 0 \<le> i \<and> i < int (length xs) then Inr (xs ! nat i)
      else if i < 0 \<and> - int (length xs) \<le> i then Inr (xs ! nat (int (length xs) + i))
      else Inl IndexError)"

text \<open>
  \<open>process_traffic_lights\<close>: the selection above, then lines 201 to 213. A message
  object is true, so \<open>if closest_light\<close> tests that a light was selected.
\<close>

definition process_traffic_lights ::
  "'img collaborators \<Rightarrow> nat \<Rightarrow> 'img TLDetector \<Rightarrow> (error + int \<times> pyval) \<times> 'img TLDetector" where
  "process_traffic_lights e now s =
     (case select_candidate e s of
        Inl err \<Rightarrow> (Inl err, s)
      | Inr (light_distance, closest_light, stop_line_idx) \<Rightarrow>
          (case closest_light of
             None \<Rightarrow> (Inr (- 1, PyInt (UNKNOWN (ids e))), s)
           | Some light \<Rightarrow>
              (case (if GENERATE_DATASET then try_image_capture now s light light_distance
                     else (Inr (), s)) of
                 (Inl err, s1) \<Rightarrow> (Inl err, s1)
               | (Inr _, s1) \<Rightarrow>
                   if float_less light_distance (Finite LIGHT_DISTANCE_THRESHOLD) then
                     (case get_light_state e s1 light of
                        (Inl err, s2) \<Rightarrow> (Inl err, s2)
                      | (Inr light_state, s2) \<Rightarrow>
                          (case py_index (stop_line_positions s2) stop_line_idx of
                             Inl err \<Rightarrow> (Inl err, s2)
                           | Inr stop_line_position \<Rightarrow>
                               (case get_closest_waypoint e s2 (fst stop_line_position)
                                       (snd stop_line_position) of
                                  Inl err \<Rightarrow> (Inl err, s2)
                                | Inr closest_light_wp_idx \<Rightarrow>
                                    (Inr (closest_light_wp_idx, light_state), s2))))
                   else (Inr (- 1, PyInt (UNKNOWN (ids e))), s1))))"

text \<open>
  Lines 106 to 116 of \<open>image_cb\<close>: the debounce step on the pair \<open>(light_wp, state)\<close> of
  the frame. The first branch publishes nothing.
\<close>

definition image_cb_debounce ::
  "TrafficLight_ids \<Rightarrow> 'img TLDetector \<Rightarrow> int \<times> pyval \<Rightarrow> 'img TLDetector" where
  "image_cb_debounce c s frame =
     (let light_wp = fst frame; st = snd frame;
          s1 = (if \<not> py_eq (state s) st then s\<lparr>state_count := 0, state := st\<rparr>
                else if state_count s \<ge> STATE_COUNT_THRESHOLD then
                  (let light_wp' = (if py_eq st (PyInt (RED c)) then light_wp else - 1) in
                   s\<lparr>last_state := state s, last_wp := light_wp',
                     published := published s @ [light_wp']\<rparr>)
                else s\<lparr>published := published s @ [last_wp s]\<rparr>)
      in s1\<lparr>state_count := state_count s1 + 1\<rparr>)"

definition image_cb ::
  "'img collaborators \<Rightarrow> nat \<Rightarrow> 'img TLDetector \<Rightarrow> 'img \<Rightarrow> (error + unit) \<times> 'img TLDetector" where
  "image_cb e now s msg =
     (let s1 = s\<lparr>has_image := Some True, camera_image := Some msg\<rparr> in
      case process_traffic_lights e now s1 of
        (Inl err, s2) \<Rightarrow> (Inl err, s2)
      | (Inr frame, s2) \<Rightarrow> (Inr (), image_cb_debounce (ids e) s2 frame))"

text \<open>
  Feeding the debounce step a sequence of per-frame pairs, in order: for each frame, the
  values it adds to the output channel.
\<close>

fun frame_outputs ::
  "TrafficLight_ids \<Rightarrow> 'img TLDetector \<Rightarrow> (int \<times> pyval) list \<Rightarrow> int list list" where
  "frame_outputs c s [] = []"
| "frame_outputs c s (frame # frames) =
     (let s' = image_cb_debounce c s frame
      in drop (length (published s)) (published s') # frame_outputs c s' frames)"

subsection \<open>The selection the specification asks for\<close>

text \<open>
  The specification's words for the Candidate Selector, on the values the node computes:
  \<open>distance\<^sub>i\<close> is the distance from the pose to the stop line, \<open>ahead\<^sub>i\<close> is
  \<open>dot(stop_line\<^sub>i - pose, pose - previous_pose) > 0\<close>. An intersection is eligible when
  it is ahead and its distance is below \<open>float('inf')\<close>, that is, neither infinite nor
  \<open>NaN\<close>.
\<close>

definition spec_distance :: "'img collaborators \<Rightarrow> point \<Rightarrow> point \<Rightarrow> pyfloat" where
  "spec_distance e p stop =
     math_sqrt e
       (float_add e
          (float_mul e (float_sub e (Finite (fst p)) (Finite (fst stop)))
                       (float_sub e (Finite (fst p)) (Finite (fst stop))))
          (float_mul e (float_sub e (Finite (snd p)) (Finite (snd stop)))
                       (float_sub e (Finite (snd p)) (Finite (snd stop)))))"

definition spec_ahead :: "'img collaborators \<Rightarrow> point \<Rightarrow> point \<Rightarrow> point \<Rightarrow> bool" where
  "spec_ahead e p q stop =
     float_less (Finite 0)
       (np_dot e
          (float_sub e (Finite (fst stop)) (Finite (fst p)),
           float_sub e (Finite (snd stop)) (Finite (snd p)))
          (float_sub e (Finite (fst p)) (Finite (fst q)),
           float_sub e (Finite (snd p)) (Finite (snd q))))"

definition eligible :: "'img collaborators \<Rightarrow> point \<Rightarrow> point \<Rightarrow> point \<Rightarrow> bool" where
  "eligible e p q stop = (spec_ahead e p q stop \<and> float_less (spec_distance e p stop) PosInf)"

text \<open>
  \<open>is_selection e p q sl ls n acc\<close>: among the first \<open>n\<close> intersections, \<open>acc\<close> is the
  eligible one at minimal distance (no eligible one is nearer), the lowest index among
  equals (every eligible one before it is farther), or the initial "none" when no
  intersection is eligible.
\<close>

definition is_selection ::
  "'img collaborators \<Rightarrow> point \<Rightarrow> point \<Rightarrow> point list \<Rightarrow> TrafficLight list \<Rightarrow> nat \<Rightarrow> candidate
     \<Rightarrow> bool" where
  "is_selection e p q sl ls n acc =
     (if \<exists>i<n. eligible e p q (sl ! i) then
        \<exists>i<n. acc = (spec_distance e p (sl ! i), Some (ls ! i), int i)
             \<and> eligible e p q (sl ! i)
             \<and> (\<forall>j<n. eligible e p q (sl ! j) \<longrightarrow>
                   \<not> float_less (spec_distance e p (sl ! j)) (spec_distance e p (sl ! i)))
             \<and> (\<forall>j<i. eligible e p q (sl ! j) \<longrightarrow>
                   float_less (spec_distance e p (sl ! i)) (spec_distance e p (sl ! j)))
      else acc = (PosInf, None, - 1))"

text \<open>
  A candidate that holds a light holds a distance below \<open>float('inf')\<close> and an index
  inside \<open>stop_line_positions\<close>.
\<close>

definition in_range :: "point list \<Rightarrow> candidate \<Rightarrow> bool" where
  "in_range sl acc = (fst (snd acc) \<noteq> None \<longrightarrow>
      float_less (fst acc) PosInf \<and> (\<exists>i. snd (snd acc) = int i \<and> i < length sl))"

subsection \<open>Executions of the node\<close>

text \<open>
  The states the node can be in: the state \<open>__init__\<close> leaves, and the state after any
  callback on such a state, whether the callback returned or raised.
\<close>

inductive reachable :: "'img collaborators \<Rightarrow> point list \<Rightarrow> 'img TLDetector \<Rightarrow> bool"
  for e :: "'img collaborators" and config :: "point list" where
  reach_init: "reachable e config (init (ids e) config)"
| reach_pose: "reachable e config s \<Longrightarrow> reachable e config (pose_cb s msg)"
| reach_waypoints: "reachable e config s \<Longrightarrow> reachable e config (snd (waypoints_cb s wps))"
| reach_traffic: "reachable e config s \<Longrightarrow> reachable e config (traffic_cb s ls)"
| reach_image: "reachable e config s \<Longrightarrow> reachable e config (snd (image_cb e now s img))"

subsection \<open>A concrete scenario\<close>

text \<open>
  The arithmetic of the examples computes exactly and overflows to an infinity from
  magnitude \<open>2 ^ 1024\<close> on, as binary64 does; it does not round. It gives the binary64
  result wherever the exact result of each operation is a binary64 number or has magnitude
  \<open>2 ^ 1024\<close> or more, which is so at every input of the examples below: their
  intermediate results are small integers, powers of two, or overflow. (\<open>exact_sqrt\<close>
  answers \<open>NaN\<close> on a negative number, where \<open>math.sqrt\<close> raises; no example takes the
  root of one.)
\<close>

definition overflow :: "real \<Rightarrow> pyfloat" where
  "overflow x = (if 2 ^ 1024 \<le> x then PosInf else if x \<le> - (2 ^ 1024) then NegInf else Finite x)"

fun exact_neg :: "pyfloat \<Rightarrow> pyfloat" where
  "exact_neg (Finite a) = Finite (- a)"
| "exact_neg PosInf = NegInf"
| "exact_neg NegInf = PosInf"
| "exact_neg NaN = NaN"

fun exact_add :: "pyfloat \<Rightarrow> pyfloat \<Rightarrow> pyfloat" where
  "exact_add (Finite a) (Finite b) = overflow (a + b)"
| "exact_add NaN b = NaN"
| "exact_add a NaN = NaN"
| "exact_add PosInf NegInf = NaN"
| "exact_add NegInf PosInf = NaN"
| "exact_add PosInf b = PosInf"
| "exact_add a PosInf = PosInf"
| "exact_add NegInf b = NegInf"
| "exact_add a NegInf = NegInf"

definition exact_sub :: "pyfloat \<Rightarrow> pyfloat \<Rightarrow> pyfloat" where
  "exact_sub a b = exact_add a (exact_neg b)"

fun exact_mul :: "pyfloat \<Rightarrow> pyfloat \<Rightarrow> pyfloat" where
  "exact_mul (Finite a) (Finite b) = overflow (a * b)"
| "exact_mul NaN b = NaN"
| "exact_mul a NaN = NaN"
| "exact_mul (Finite a) PosInf = (if a = 0 then NaN else if 0 < a then PosInf else NegInf)"
| "exact_mul (Finite a) NegInf = (if a = 0 then NaN else if 0 < a then NegInf else PosInf)"
| "exact_mul PosInf (Finite b) = (if b = 0 then NaN else if 0 < b then PosInf else NegInf)"
| "exact_mul NegInf (Finite b) = (if b = 0 then NaN else if 0 < b then NegInf else PosInf)"
| "exact_mul PosInf PosInf = PosInf"
| "exact_mul PosInf NegInf = NegInf"
| "exact_mul NegInf PosInf = NegInf"
| "exact_mul NegInf NegInf = PosInf"

fun exact_sqrt :: "pyfloat \<Rightarrow> pyfloat" where
  "exact_sqrt (Finite a) = (if a < 0 then NaN else Finite (sqrt a))"
| "exact_sqrt PosInf = PosInf"
| "exact_sqrt NegInf = NaN"
| "exact_sqrt NaN = NaN"

definition exact_dot :: "pyfloat \<times> pyfloat \<Rightarrow> pyfloat \<times> pyfloat \<Rightarrow> pyfloat" where
  "exact_dot a b = exact_add (exact_mul (fst a) (fst b)) (exact_mul (snd a) (snd b))"

text \<open>
  The node of the examples is run with the identifiers of the message declaration, a
  classifier that answers \<open>RED\<close> for every image, an index whose every query answers
  waypoint 0, and the arithmetic above. \<open>approaching\<close> is the node after two pose updates,
  \<open>(0, 0)\<close> then \<open>(1, 0)\<close>, and a light list, with no path and no image received yet.
\<close>

definition demo :: "unit collaborators" where
  "demo = \<lparr>ids = styx_ids, get_classification = (\<lambda>img. RED styx_ids), query = (\<lambda>data p. 0),
            float_sub = exact_sub, float_mul = exact_mul, float_add = exact_add,
            math_sqrt = exact_sqrt, np_dot = exact_dot\<rparr>"

definition approaching :: "point list \<Rightarrow> TrafficLight list \<Rightarrow> unit TLDetector" where
  "approaching config ls = traffic_cb (pose_cb (pose_cb (init styx_ids config) (0, 0)) (1, 0)) ls"

section \<open>Properties\<close>

subsection \<open>Evaluating the scenario\<close>

lemmas frame_defs = image_cb_def process_traffic_lights_def select_candidate_def
  try_image_capture_def get_light_state_def get_closest_waypoint_def py_index_def
  image_cb_debounce_def GENERATE_DATASET_def LIGHT_DISTANCE_THRESHOLD_def
  IMAGE_CAPTURE_DISTANCE_def STATE_COUNT_THRESHOLD_def py_eq_def Let_def

lemmas scenario_defs = demo_def approaching_def init_def pose_cb_def traffic_cb_def
  waypoints_cb_def KDTree_def styx_ids_def exact_sub_def exact_dot_def overflow_def

subsection \<open>The order of floats\<close>

lemma float_less_irrefl: "\<not> float_less a a"
  by (cases a) simp_all

lemma float_less_trans: "float_less a b \<Longrightarrow> float_less b c \<Longrightarrow> float_less a c"
  by (cases a; cases b; cases c) simp_all

lemma float_less_below_inf: "float_less a b \<Longrightarrow> float_less a PosInf"
  by (cases a; cases b) simp_all

lemma float_less_not_below_inf: "\<not> float_less a PosInf \<Longrightarrow> \<not> float_less a b"
  by (cases a; cases b) simp_all

lemma float_less_weak:
  "float_less a b \<Longrightarrow> \<not> float_less c b \<Longrightarrow> float_less c PosInf \<Longrightarrow> float_less a c"
  by (cases a; cases b; cases c) simp_all

subsection \<open>The loop over the lights\<close>

lemma lights_loop_step:
  "idx < length sl \<Longrightarrow>
   lights_loop e p q sl idx (light # rest) acc =
     lights_loop e p q sl (Suc idx) rest
       (if spec_ahead e p q (sl ! idx) \<and> float_less (spec_distance e p (sl ! idx)) (fst acc)
        then (spec_distance e p (sl ! idx), Some light, int idx) else acc)"
  by (simp add: Let_def spec_ahead_def spec_distance_def)

lemma is_selection_0: "is_selection e p q sl ls 0 (PosInf, None, - 1)"
  by (simp add: is_selection_def)

lemma is_selection_step:
  assumes "is_selection e p q sl ls n acc"
  shows "is_selection e p q sl ls (Suc n)
       (if spec_ahead e p q (sl ! n) \<and> float_less (spec_distance e p (sl ! n)) (fst acc)
        then (spec_distance e p (sl ! n), Some (ls ! n), int n) else acc)"
proof (cases "\<exists>i<n. eligible e p q (sl ! i)")
  case False
  then have acc: "acc = (PosInf, None, - 1)" using assms by (simp add: is_selection_def)
  show ?thesis
  proof (cases "eligible e p q (sl ! n)")
    case True
    with False acc show ?thesis
      unfolding is_selection_def
      by (auto simp: less_Suc_eq eligible_def float_less_irrefl intro!: exI[of _ n])
  next
    case no: False
    with False have "\<not> (\<exists>i<Suc n. eligible e p q (sl ! i))" by (auto simp: less_Suc_eq)
    with no acc show ?thesis unfolding is_selection_def by (simp add: eligible_def)
  qed
next
  case True
  then obtain i where i: "i < n" "acc = (spec_distance e p (sl ! i), Some (ls ! i), int i)"
    "eligible e p q (sl ! i)"
    "\<forall>j<n. eligible e p q (sl ! j) \<longrightarrow>
        \<not> float_less (spec_distance e p (sl ! j)) (spec_distance e p (sl ! i))"
    "\<forall>j<i. eligible e p q (sl ! j) \<longrightarrow>
        float_less (spec_distance e p (sl ! i)) (spec_distance e p (sl ! j))"
    using assms unfolding is_selection_def by auto
  from True have ex: "\<exists>i<Suc n. eligible e p q (sl ! i)" by (auto simp: less_Suc_eq)
  show ?thesis
  proof (cases "spec_ahead e p q (sl ! n)
      \<and> float_less (spec_distance e p (sl ! n)) (spec_distance e p (sl ! i))")
    case True
    then have el: "eligible e p q (sl ! n)"
      by (auto simp: eligible_def dest: float_less_below_inf)
    have "\<forall>j<Suc n. eligible e p q (sl ! j) \<longrightarrow>
        \<not> float_less (spec_distance e p (sl ! j)) (spec_distance e p (sl ! n))"
      using True i(4) by (auto simp: less_Suc_eq float_less_irrefl dest: float_less_trans)
    moreover have "\<forall>j<n. eligible e p q (sl ! j) \<longrightarrow>
        float_less (spec_distance e p (sl ! n)) (spec_distance e p (sl ! j))"
      using True i(4) by (auto simp: eligible_def intro: float_less_weak)
    ultimately show ?thesis
      using True ex el i(2) unfolding is_selection_def
      by (auto intro!: exI[of _ n])
  next
    case False
    have "\<forall>j<Suc n. eligible e p q (sl ! j) \<longrightarrow>
        \<not> float_less (spec_distance e p (sl ! j)) (spec_distance e p (sl ! i))"
      using False i(4) by (auto simp: less_Suc_eq eligible_def)
    then show ?thesis
      using False ex i unfolding is_selection_def
      by (auto intro!: exI[of _ i])
  qed
qed

lemma lights_loop_selects:
  "idx + length rest = length sl \<Longrightarrow> drop idx ls = rest \<Longrightarrow> is_selection e p q sl ls idx acc \<Longrightarrow>
   \<exists>acc'. lights_loop e p q sl idx rest acc = Inr acc' \<and> is_selection e p q sl ls (length sl) acc'"
proof (induction rest arbitrary: idx acc)
  case Nil
  then show ?case by simp
next
  case (Cons light rest)
  from Cons.prems have idx: "idx < length sl" by simp
  from Cons.prems have l: "ls ! idx = light" "drop (Suc idx) ls = rest"
    by (metis nth_via_drop, metis drop_Suc tl_drop list.sel(3))
  have "is_selection e p q sl ls (Suc idx)
       (if spec_ahead e p q (sl ! idx) \<and> float_less (spec_distance e p (sl ! idx)) (fst acc)
        then (spec_distance e p (sl ! idx), Some light, int idx) else acc)"
    using is_selection_step [OF Cons.prems(3)] unfolding l(1) .
  from Cons.IH [OF _ l(2) this] Cons.prems(1) idx show ?case
    by (simp only: lights_loop_step) simp
qed

lemma lights_loop_Inl:
  "lights_loop e p q sl idx rest acc = Inl err \<Longrightarrow> err = IndexError \<and> length sl < idx + length rest"
proof (induction rest arbitrary: idx acc)
  case Nil
  then show ?case by simp
next
  case (Cons light rest)
  show ?case
  proof (cases "idx < length sl")
    case True
    with Cons.prems have "lights_loop e p q sl (Suc idx) rest
       (if spec_ahead e p q (sl ! idx) \<and> float_less (spec_distance e p (sl ! idx)) (fst acc)
        then (spec_distance e p (sl ! idx), Some light, int idx) else acc) = Inl err"
      by (simp only: lights_loop_step)
    from Cons.IH [OF this] show ?thesis by simp
  next
    case False
    with Cons.prems show ?thesis by simp
  qed
qed

lemma lights_loop_too_many:
  "idx \<le> length sl \<Longrightarrow> length sl < idx + length rest \<Longrightarrow>
   lights_loop e p q sl idx rest acc = Inl IndexError"
proof (induction rest arbitrary: idx acc)
  case Nil
  then show ?case by simp
next
  case (Cons light rest)
  show ?case
  proof (cases "idx < length sl")
    case True
    with Cons.prems have "Suc idx \<le> length sl" "length sl < Suc idx + length rest" by simp_all
    from Cons.IH [OF this] True show ?thesis by (simp only: lights_loop_step)
  next
    case False
    then show ?thesis by simp
  qed
qed

lemma lights_loop_in_range:
  "lights_loop e p q sl idx rest acc = Inr acc' \<Longrightarrow> in_range sl acc \<Longrightarrow> in_range sl acc'"
proof (induction rest arbitrary: idx acc)
  case Nil
  then show ?case by simp
next
  case (Cons light rest)
  show ?case
  proof (cases "idx < length sl")
    case True
    let ?acc = "if spec_ahead e p q (sl ! idx) \<and> float_less (spec_distance e p (sl ! idx)) (fst acc)
        then (spec_distance e p (sl ! idx), Some light, int idx) else acc"
    from True Cons.prems(1) have run: "lights_loop e p q sl (Suc idx) rest ?acc = Inr acc'"
      by (simp only: lights_loop_step)
    have "in_range sl ?acc" using True Cons.prems(2)
      by (auto simp: in_range_def dest: float_less_below_inf)
    from Cons.IH [OF run this] show ?thesis .
  next
    case False
    with Cons.prems show ?thesis by simp
  qed
qed

lemma select_candidate_in_range:
  assumes "select_candidate e s = Inr (light_distance, Some light, stop_line_idx)"
  shows "float_less light_distance PosInf
       \<and> (\<exists>i. stop_line_idx = int i \<and> i < length (stop_line_positions s))"
proof -
  have init: "in_range (stop_line_positions s) (PosInf, None, - 1)" by (simp add: in_range_def)
  from assms obtain p q where
    "lights_loop e p q (stop_line_positions s) 0 (lights s) (PosInf, None, - 1)
       = Inr (light_distance, Some light, stop_line_idx)"
    by (auto simp: select_candidate_def split: option.splits)
  from lights_loop_in_range [OF this init] show ?thesis by (auto simp: in_range_def)
qed

lemma select_candidate_Inl:
  "(select_candidate e s = Inl err) =
   (err = IndexError \<and> pose s \<noteq> None \<and> previous_pose s \<noteq> None
      \<and> length (stop_line_positions s) < length (lights s))"
proof (cases "pose s")
  case None
  then show ?thesis by (simp add: select_candidate_def)
next
  case p: (Some p)
  show ?thesis
  proof (cases "previous_pose s")
    case None
    with p show ?thesis by (simp add: select_candidate_def)
  next
    case (Some q)
    have "(lights_loop e p q (stop_line_positions s) 0 (lights s) (PosInf, None, - 1) = Inl err) =
        (err = IndexError \<and> length (stop_line_positions s) < length (lights s))"
      using lights_loop_Inl [of e p q "stop_line_positions s" 0 "lights s" "(PosInf, None, - 1)" err]
        lights_loop_too_many [of 0 "stop_line_positions s" "lights s" e p q "(PosInf, None, - 1)"]
      by auto
    with p Some show ?thesis by (simp add: select_candidate_def)
  qed
qed

lemma select_candidate_image [simp]:
  "select_candidate e (s\<lparr>has_image := h, camera_image := c\<rparr>) = select_candidate e s"
  by (simp add: select_candidate_def split: option.splits)

subsection \<open>What a frame does before the debounce step\<close>

lemma try_image_capture_in_frame:
  assumes "has_image s = Some True" "camera_image s = Some msg"
  shows "\<exists>s'. try_image_capture now s light d = (Inr (), s')
     \<and> has_image s' = Some True \<and> camera_image s' = Some msg
     \<and> classified s' = classified s \<and> published s' = published s
     \<and> waypoint_tree s' = waypoint_tree s \<and> stop_line_positions s' = stop_line_positions s
     \<and> state s' = state s \<and> state_count s' = state_count s \<and> last_wp s' = last_wp s
     \<and> prev_light_loc_assigned s' = prev_light_loc_assigned s"
  using assms by (simp add: try_image_capture_def)

lemma process_traffic_lights_in_frame:
  assumes "has_image s = Some True" "camera_image s = Some msg"
  shows "\<exists>s'. process_traffic_lights e now s =
       (case select_candidate e s of
          Inl err \<Rightarrow> Inl err
        | Inr (light_distance, closest_light, stop_line_idx) \<Rightarrow>
            if closest_light \<noteq> None \<and> float_less light_distance (Finite LIGHT_DISTANCE_THRESHOLD)
            then (case py_index (stop_line_positions s) stop_line_idx of
                    Inl err \<Rightarrow> Inl err
                  | Inr stop \<Rightarrow>
                      (case waypoint_tree s of
                         None \<Rightarrow> Inl (AttributeError ''query'')
                       | Some tree \<Rightarrow> Inr (query e tree stop, PyInt (get_classification e msg))))
            else Inr (- 1, PyInt (UNKNOWN (ids e))),
        s')
     \<and> classified s' = classified s @
         (case select_candidate e s of
            Inl err \<Rightarrow> []
          | Inr (light_distance, closest_light, stop_line_idx) \<Rightarrow>
              if closest_light \<noteq> None \<and> float_less light_distance (Finite LIGHT_DISTANCE_THRESHOLD)
              then [msg] else [])
     \<and> published s' = published s \<and> state s' = state s \<and> state_count s' = state_count s
     \<and> last_wp s' = last_wp s \<and> has_image s' = Some True \<and> camera_image s' = Some msg
     \<and> prev_light_loc_assigned s' = prev_light_loc_assigned s"
proof (cases "select_candidate e s")
  case (Inl err)
  with assms show ?thesis by (simp add: process_traffic_lights_def)
next
  case (Inr acc)
  obtain light_distance closest_light stop_line_idx
    where acc: "acc = (light_distance, closest_light, stop_line_idx)" by (cases acc) auto
  show ?thesis
  proof (cases closest_light)
    case None
    with Inr acc assms show ?thesis by (simp add: process_traffic_lights_def)
  next
    case (Some light)
    from try_image_capture_in_frame [OF assms, of now light light_distance]
    obtain s1 where s1: "try_image_capture now s light light_distance = (Inr (), s1)"
      "has_image s1 = Some True" "camera_image s1 = Some msg"
      "classified s1 = classified s" "published s1 = published s"
      "waypoint_tree s1 = waypoint_tree s" "stop_line_positions s1 = stop_line_positions s"
      "state s1 = state s" "state_count s1 = state_count s" "last_wp s1 = last_wp s"
      "prev_light_loc_assigned s1 = prev_light_loc_assigned s"
      by blast
    show ?thesis
    proof (cases "float_less light_distance (Finite LIGHT_DISTANCE_THRESHOLD)")
      case False
      with Inr acc Some s1 show ?thesis
        by (simp add: process_traffic_lights_def GENERATE_DATASET_def)
    next
      case True
      with Inr acc Some s1 show ?thesis
        by (simp add: process_traffic_lights_def GENERATE_DATASET_def get_light_state_def
            get_closest_waypoint_def split: sum.splits option.splits)
    qed
  qed
qed

lemma frame_processing:
  "\<exists>s'. process_traffic_lights e now (s\<lparr>has_image := Some True, camera_image := Some msg\<rparr>) =
       (case select_candidate e s of
          Inl err \<Rightarrow> Inl err
        | Inr (light_distance, closest_light, stop_line_idx) \<Rightarrow>
            if closest_light \<noteq> None \<and> float_less light_distance (Finite LIGHT_DISTANCE_THRESHOLD)
            then (case py_index (stop_line_positions s) stop_line_idx of
                    Inl err \<Rightarrow> Inl err
                  | Inr stop \<Rightarrow>
                      (case waypoint_tree s of
                         None \<Rightarrow> Inl (AttributeError ''query'')
                       | Some tree \<Rightarrow> Inr (query e tree stop, PyInt (get_classification e msg))))
            else Inr (- 1, PyInt (UNKNOWN (ids e))),
        s')
     \<and> classified s' = classified s @
         (case select_candidate e s of
            Inl err \<Rightarrow> []
          | Inr (light_distance, closest_light, stop_line_idx) \<Rightarrow>
              if closest_light \<noteq> None \<and> float_less light_distance (Finite LIGHT_DISTANCE_THRESHOLD)
              then [msg] else [])
     \<and> published s' = published s \<and> state s' = state s \<and> state_count s' = state_count s
     \<and> last_wp s' = last_wp s \<and> has_image s' = Some True \<and> camera_image s' = Some msg
     \<and> prev_light_loc_assigned s' = prev_light_loc_assigned s"
proof -
  let ?s1 = "s\<lparr>has_image := Some True, camera_image := Some msg\<rparr>"
  have eqs: "select_candidate e ?s1 = select_candidate e s"
    "stop_line_positions ?s1 = stop_line_positions s" "waypoint_tree ?s1 = waypoint_tree s"
    "classified ?s1 = classified s" "published ?s1 = published s" "state ?s1 = state s"
    "state_count ?s1 = state_count s" "last_wp ?s1 = last_wp s"
    "prev_light_loc_assigned ?s1 = prev_light_loc_assigned s"
    by simp_all
  have "has_image ?s1 = Some True" "camera_image ?s1 = Some msg" by simp_all
  from process_traffic_lights_in_frame [OF this, of e now] show ?thesis
    unfolding eqs .
qed

lemma image_cb_debounce_keeps:
  "has_image (image_cb_debounce c s frame) = has_image s
   \<and> camera_image (image_cb_debounce c s frame) = camera_image s
   \<and> prev_light_loc_assigned (image_cb_debounce c s frame) = prev_light_loc_assigned s"
  by (simp add: image_cb_debounce_def Let_def)

lemma image_cb_keeps:
  "has_image (snd (image_cb e now s msg)) = Some True
   \<and> camera_image (snd (image_cb e now s msg)) = Some msg
   \<and> prev_light_loc_assigned (snd (image_cb e now s msg)) = prev_light_loc_assigned s"
proof -
  let ?s1 = "s\<lparr>has_image := Some True, camera_image := Some msg\<rparr>"
  from frame_processing [where e=e and now=now and s=s and msg=msg]
  obtain r s2 where run: "process_traffic_lights e now ?s1 = (r, s2)"
    and keep: "has_image s2 = Some True" "camera_image s2 = Some msg"
      "prev_light_loc_assigned s2 = prev_light_loc_assigned s"
    by auto
  then show ?thesis
    by (cases r) (auto simp: image_cb_def image_cb_debounce_keeps)
qed

lemma waypoints_cb_keeps:
  "has_image (snd (waypoints_cb s wps)) = has_image s
   \<and> camera_image (snd (waypoints_cb s wps)) = camera_image s
   \<and> prev_light_loc_assigned (snd (waypoints_cb s wps)) = prev_light_loc_assigned s"
  by (simp add: waypoints_cb_def KDTree_def Let_def)

lemma reachable_image_invariant:
  "reachable e config s \<Longrightarrow>
   has_image s \<noteq> Some False \<and> \<not> prev_light_loc_assigned s
   \<and> (has_image s = Some True \<longrightarrow> camera_image s \<noteq> None)"
proof (induction rule: reachable.induct)
  case reach_init
  show ?case by (simp add: init_def)
next
  case (reach_pose s msg)
  then show ?case by (simp add: pose_cb_def)
next
  case (reach_waypoints s wps)
  then show ?case by (simp add: waypoints_cb_keeps)
next
  case (reach_traffic s ls)
  then show ?case by (simp add: traffic_cb_def)
next
  case (reach_image s now img)
  then show ?case by (simp add: image_cb_keeps)
qed

subsection \<open>The debounce step, frame by frame\<close>

lemma frame_outputs_reset:
  "\<not> py_eq (state s) st \<Longrightarrow>
   frame_outputs c s ((w, st) # fs) = [] # frame_outputs c (s\<lparr>state := st, state_count := 1\<rparr>) fs"
  by (simp add: image_cb_debounce_def Let_def)

lemma frame_outputs_hold:
  "py_eq (state s) st \<Longrightarrow> state_count s < 3 \<Longrightarrow>
   frame_outputs c s ((w, st) # fs) =
     [last_wp s] # frame_outputs c (s\<lparr>published := published s @ [last_wp s],
                                        state_count := state_count s + 1\<rparr>) fs"
  by (simp add: image_cb_debounce_def Let_def STATE_COUNT_THRESHOLD_def)

lemma frame_outputs_commit:
  "py_eq (state s) st \<Longrightarrow> 3 \<le> state_count s \<Longrightarrow>
   v = (if py_eq st (PyInt (RED c)) then w else - 1) \<Longrightarrow>
   frame_outputs c s ((w, st) # fs) =
     [v] # frame_outputs c (s\<lparr>last_state := state s, last_wp := v,
                              published := published s @ [v],
                              state_count := state_count s + 1\<rparr>) fs"
  by (simp add: image_cb_debounce_def Let_def STATE_COUNT_THRESHOLD_def)

lemmas frame_outputs_steps = frame_outputs_reset frame_outputs_hold frame_outputs_commit

text \<open>
  C1, as stated, fails: with the identifiers of the message declaration and the mapped
  index 7, the sixth frame of \<open>[RED, RED, GREEN, RED, RED, RED]\<close> still emits \<open>-1\<close>. The
  frames 1, 3 and 4 take the reset branch and emit nothing.
\<close>

theorem debounce_sixth_frame_counterexample:
  "frame_outputs styx_ids (init styx_ids [] :: unit TLDetector)
      [(7, PyInt (RED styx_ids)), (7, PyInt (RED styx_ids)), (7, PyInt (GREEN styx_ids)),
       (7, PyInt (RED styx_ids)), (7, PyInt (RED styx_ids)), (7, PyInt (RED styx_ids))]
   = [[], [- 1], [], [], [- 1], [- 1]]"
  by (simp add: frame_outputs_steps init_def py_eq_def styx_ids_def del: frame_outputs.simps(2))

text \<open>
  C1, amended: from the initial debounce state, the frames
  \<open>[RED, RED, GREEN, RED, RED, RED]\<close> (each \<open>RED\<close> with the mapped index \<open>w \<ge> 0\<close>) emit
  only \<open>-1\<close> (at the frames 2, 5 and 6, nothing at the frames 1, 3 and 4), and the output
  changes to \<open>w\<close> at a seventh frame that is \<open>RED\<close> again, the fourth consecutive \<open>RED\<close>
  after the \<open>GREEN\<close>: the frame that resets the counter counts as zero, so the counter
  reaches the threshold 3 only after the third \<open>RED\<close> has been processed.
\<close>

theorem debounce_hysteresis:
  assumes "RED c \<noteq> GREEN c" "RED c \<noteq> UNKNOWN c" "0 \<le> w"
  shows "frame_outputs c (init c cfg)
      [(w, PyInt (RED c)), (w, PyInt (RED c)), (w', PyInt (GREEN c)),
       (w, PyInt (RED c)), (w, PyInt (RED c)), (w, PyInt (RED c)), (w, PyInt (RED c))]
   = [[], [- 1], [], [], [- 1], [- 1], [w]] \<and> w \<noteq> - 1"
proof -
  have "GREEN c \<noteq> RED c" "UNKNOWN c \<noteq> RED c" using assms by auto
  with assms show ?thesis
    by (simp add: frame_outputs_steps init_def py_eq_def del: frame_outputs.simps(2))
qed

text \<open>
  C1, amended, at the identifiers of the message declaration and the mapped index 7.
\<close>

theorem debounce_hysteresis_witness:
  "RED styx_ids \<noteq> GREEN styx_ids \<and> RED styx_ids \<noteq> UNKNOWN styx_ids \<and> (0::int) \<le> 7 \<and>
   frame_outputs styx_ids (init styx_ids [] :: unit TLDetector)
      [(7, PyInt (RED styx_ids)), (7, PyInt (RED styx_ids)), (- 1, PyInt (GREEN styx_ids)),
       (7, PyInt (RED styx_ids)), (7, PyInt (RED styx_ids)), (7, PyInt (RED styx_ids)),
       (7, PyInt (RED styx_ids))]
   = [[], [- 1], [], [], [- 1], [- 1], [7]]"
  using debounce_hysteresis [of styx_ids 7 "[]" "- 1"] by (simp add: styx_ids_def)

subsection \<open>Publishing\<close>

text \<open>
  What a frame adds to the output channel: nothing when its processing raises, nothing
  when the resolved state differs from the state observed so far, one number otherwise.
\<close>

lemma image_cb_publishes:
  "\<exists>r s2. process_traffic_lights e now (s\<lparr>has_image := Some True, camera_image := Some msg\<rparr>) = (r, s2)
     \<and> published (snd (image_cb e now s msg)) = published s @
          (case r of
             Inl err \<Rightarrow> []
           | Inr (light_wp, st) \<Rightarrow>
               if \<not> py_eq (state s) st then []
               else if state_count s \<ge> STATE_COUNT_THRESHOLD
                    then [if py_eq st (PyInt (RED (ids e))) then light_wp else - 1]
               else [last_wp s])
     \<and> length (published (snd (image_cb e now s msg))) \<le> length (published s) + 1"
proof -
  let ?s1 = "s\<lparr>has_image := Some True, camera_image := Some msg\<rparr>"
  from frame_processing [where e=e and now=now and s=s and msg=msg]
  obtain r s2 where run: "process_traffic_lights e now ?s1 = (r, s2)"
    and keep: "published s2 = published s" "state s2 = state s"
      "state_count s2 = state_count s" "last_wp s2 = last_wp s"
    by auto
  have pub: "published (snd (image_cb e now s msg)) = published s @
          (case r of
             Inl err \<Rightarrow> []
           | Inr (light_wp, st) \<Rightarrow>
               if \<not> py_eq (state s) st then []
               else if state_count s \<ge> STATE_COUNT_THRESHOLD
                    then [if py_eq st (PyInt (RED (ids e))) then light_wp else - 1]
               else [last_wp s])"
    using run keep by (cases r) (auto simp: image_cb_def image_cb_debounce_def Let_def)
  have "length (published (snd (image_cb e now s msg))) \<le> length (published s) + 1"
    unfolding pub by (cases r) auto
  with run pub show ?thesis by blast
qed

text \<open>
  C2: every processed frame publishes exactly one integer, also a frame whose resolved
  state differs from the state observed so far. The comment in \<open>image_cb\<close> says so too
  ("Publish upcoming red lights at camera frequency"), and the last branch republishes
  \<open>last_wp\<close> for that purpose; the first branch does not. With a path, two poses, a stop line
  4 units ahead and a classifier answering \<open>RED\<close>, the first frame resolves \<open>RED\<close>
  against the initial \<open>UNKNOWN\<close>: the callback returns and the channel stays empty.
\<close>

theorem reset_frame_publishes_nothing:
  "fst (image_cb demo 0 (snd (waypoints_cb (approaching [(5, 0)] [TrafficLight 0]) [(5, 0)])) ()) = Inr ()
   \<and> published (snd (image_cb demo 0
         (snd (waypoints_cb (approaching [(5, 0)] [TrafficLight 0]) [(5, 0)])) ())) = []"
  by (simp add: frame_defs scenario_defs)

subsection \<open>The light state without an image\<close>




subsection \<open>The Candidate Selector\<close>

text \<open>
  C4, as stated, fails where a distance overflows: with the poses \<open>(-1, 0)\<close> then
  \<open>(0, 0)\<close> and a single stop line at \<open>(2 ^ 700, 0)\<close>, the stop line is ahead (the dot
  product is \<open>2 ^ 700 > 0\<close>), its squared distance overflows to \<open>inf\<close>, \<open>inf < inf\<close> is
  false, and no candidate is returned although one is ahead.
\<close>

theorem overflowing_distance_counterexample:
  "length (lights (traffic_cb (pose_cb (pose_cb (init styx_ids [(2 ^ 700, 0)]) (- 1, 0)) (0, 0))
             [TrafficLight 0]))
     = length (stop_line_positions
         (traffic_cb (pose_cb (pose_cb (init styx_ids [(2 ^ 700, 0)]) (- 1, 0)) (0, 0))
             [TrafficLight 0]))
   \<and> (0::real) < (2 ^ 700 - 0) * (0 - (- 1)) + (0 - 0) * (0 - 0)
   \<and> select_candidate demo
        (traffic_cb (pose_cb (pose_cb (init styx_ids [(2 ^ 700, 0)]) (- 1, 0)) (0, 0))
             [TrafficLight 0])
     = Inr (PosInf, None, - 1)"
  by (simp add: select_candidate_def scenario_defs)

text \<open>
  C4, amended: with index-aligned lists of lights and stop lines, the selection returns
  "none" when a pose is missing; otherwise, on the distances and dot products as the node
  computes them in floats, it returns the intersection of minimal distance among exactly
  those that are ahead (dot product \<open>> 0\<close>) with a distance below \<open>float('inf')\<close>, the
  lowest index among those at that distance, and "none" when there is no such
  intersection. It holds whatever the rounding of the float operations is.
\<close>

theorem candidate_selector:
  assumes "length (lights s) = length (stop_line_positions s)"
  shows "case (pose s, previous_pose s) of
           (Some p, Some q) \<Rightarrow>
             (\<exists>acc. select_candidate e s = Inr acc
                \<and> is_selection e p q (stop_line_positions s) (lights s) (length (lights s)) acc)
         | _ \<Rightarrow> select_candidate e s = Inr (PosInf, None, - 1)"
proof (cases "pose s")
  case None
  then show ?thesis by (simp add: select_candidate_def)
next
  case (Some p)
  show ?thesis
  proof (cases "previous_pose s")
    case None
    with Some show ?thesis by (simp add: select_candidate_def)
  next
    case (Some q)
    have "\<exists>acc'. lights_loop e p q (stop_line_positions s) 0 (lights s) (PosInf, None, - 1) = Inr acc'
        \<and> is_selection e p q (stop_line_positions s) (lights s) (length (stop_line_positions s)) acc'"
      using assms by (intro lights_loop_selects) (simp_all add: is_selection_0)
    with Some \<open>pose s = Some p\<close> assms show ?thesis by (simp add: select_candidate_def)
  qed
qed

text \<open>
  C4, amended, at the poses \<open>(0, 0)\<close> then \<open>(1, 0)\<close> with stop lines at \<open>(5, 0)\<close> and
  \<open>(-5, 0)\<close>: the first is selected, at distance 4.
\<close>

theorem candidate_selector_witness:
  "length (lights (approaching [(5, 0), (- 5, 0)] [TrafficLight 0, TrafficLight 2]))
     = length (stop_line_positions (approaching [(5, 0), (- 5, 0)] [TrafficLight 0, TrafficLight 2]))
   \<and> select_candidate demo (approaching [(5, 0), (- 5, 0)] [TrafficLight 0, TrafficLight 2])
     = Inr (Finite 4, Some (TrafficLight 0), 0)
   \<and> is_selection demo (1, 0) (0, 0) [(5, 0), (- 5, 0)] [TrafficLight 0, TrafficLight 2] 2
        (Finite 4, Some (TrafficLight 0), 0)"
proof -
  let ?s = "approaching [(5, 0), (- 5, 0)] [TrafficLight 0, TrafficLight 2]"
  have len: "length (lights ?s) = length (stop_line_positions ?s)"
    by (simp add: scenario_defs)
  have sel: "select_candidate demo ?s = Inr (Finite 4, Some (TrafficLight 0), 0)"
    by (simp add: select_candidate_def scenario_defs)
  from candidate_selector [OF len, of demo] sel len show ?thesis
    by (simp add: scenario_defs numeral_2_eq_2)
qed

subsection \<open>Distance gating\<close>




subsection \<open>Building the index once\<close>

text \<open>
  C6, as stated, fails when the first waypoint sequence is empty: \<open>not self.waypoints_2d\<close>
  is true of the empty list as well, so the second delivery builds the tree. After the
  first delivery a query raises, after the second it answers.
\<close>

theorem second_build_after_empty_counterexample:
  "get_closest_waypoint demo (snd (waypoints_cb (init styx_ids []) [])) 0 0
     = Inl (AttributeError ''query'')
   \<and> get_closest_waypoint demo
       (snd (waypoints_cb (snd (waypoints_cb (init styx_ids []) [])) [(0, 0)])) 0 0
     = Inr 0"
  by (simp add: get_closest_waypoint_def scenario_defs)

text \<open>
  C6, amended: for every non-empty first waypoint sequence and every later sequence,
  a nearest-waypoint query after the second delivery gives what it gave after the first,
  the answer of the tree built from the first sequence.
\<close>

theorem second_build_is_noop:
  assumes "wps1 \<noteq> []" "waypoints_2d s = None"
  shows "get_closest_waypoint e (snd (waypoints_cb (snd (waypoints_cb s wps1)) wps2)) x y
           = get_closest_waypoint e (snd (waypoints_cb s wps1)) x y
       \<and> get_closest_waypoint e (snd (waypoints_cb s wps1)) x y = Inr (query e wps1 (x, y))
       \<and> waypoints_2d (snd (waypoints_cb (snd (waypoints_cb s wps1)) wps2)) = Some wps1
       \<and> waypoint_tree (snd (waypoints_cb (snd (waypoints_cb s wps1)) wps2)) = Some wps1"
  using assms by (simp add: waypoints_cb_def KDTree_def get_closest_waypoint_def Let_def)

text \<open>
  C6, amended, at the first path \<open>[(0, 0), (1, 0)]\<close> and the later path \<open>[(7, 7)]\<close>.
\<close>

theorem second_build_is_noop_witness:
  "[(0, 0), (1, 0)] \<noteq> ([] :: point list)
   \<and> waypoints_2d (init styx_ids [] :: unit TLDetector) = None
   \<and> get_closest_waypoint demo
        (snd (waypoints_cb (snd (waypoints_cb (init styx_ids []) [(0, 0), (1, 0)])) [(7, 7)])) 1 0
      = get_closest_waypoint demo (snd (waypoints_cb (init styx_ids []) [(0, 0), (1, 0)])) 1 0"
  using second_build_is_noop [of "[(0, 0), (1, 0)]" "init styx_ids []" demo "[(7, 7)]" 1 0]
  by (simp add: init_def)

subsection \<open>Stop lines and lights of different lengths\<close>

text \<open>
  C8, as stated, fails: with two stop lines configured and one light delivered, the node
  starts and a frame is processed to the end.
\<close>

theorem mismatched_lists_frame_counterexample:
  "length (lights (snd (waypoints_cb (approaching [(5, 0), (9, 0)] [TrafficLight 0]) [(5, 0)])))
     \<noteq> length (stop_line_positions
          (snd (waypoints_cb (approaching [(5, 0), (9, 0)] [TrafficLight 0]) [(5, 0)])))
   \<and> fst (image_cb demo 0
        (snd (waypoints_cb (approaching [(5, 0), (9, 0)] [TrafficLight 0]) [(5, 0)])) ()) = Inr ()"
  by (simp add: frame_defs scenario_defs)

text \<open>
  C8, amended: nothing validates the alignment. \<open>__init__\<close> stores the stop lines as
  configured and starts with no lights; a frame raises \<open>IndexError\<close> exactly when both
  poses are present and there are more lights than stop lines, and such a frame publishes
  nothing. Every other frame under a length mismatch is processed like any frame.
\<close>

theorem no_alignment_validation:
  "stop_line_positions (init c config :: 'img TLDetector) = config
   \<and> lights (init c config :: 'img TLDetector) = []
   \<and> (fst (image_cb e now s msg) = Inl IndexError) =
       (pose s \<noteq> None \<and> previous_pose s \<noteq> None
          \<and> length (stop_line_positions s) < length (lights s))
   \<and> (fst (image_cb e now s msg) = Inl IndexError \<longrightarrow>
         published (snd (image_cb e now (s :: 'img TLDetector) msg)) = published s)"
proof -
  let ?s1 = "s\<lparr>has_image := Some True, camera_image := Some msg\<rparr>"
  from frame_processing [where e=e and now=now and s=s and msg=msg]
  obtain r s2 where run: "process_traffic_lights e now ?s1 = (r, s2)"
    and r: "r = (case select_candidate e s of
          Inl err \<Rightarrow> Inl err
        | Inr (light_distance, closest_light, stop_line_idx) \<Rightarrow>
            if closest_light \<noteq> None \<and> float_less light_distance (Finite LIGHT_DISTANCE_THRESHOLD)
            then (case py_index (stop_line_positions s) stop_line_idx of
                    Inl err \<Rightarrow> Inl err
                  | Inr stop \<Rightarrow>
                      (case waypoint_tree s of
                         None \<Rightarrow> Inl (AttributeError ''query'')
                       | Some tree \<Rightarrow> Inr (query e tree stop, PyInt (get_classification e msg))))
            else Inr (- 1, PyInt (UNKNOWN (ids e))))"
    and keep: "published s2 = published s"
    by auto
  have fst_cb: "(fst (image_cb e now s msg) = Inl IndexError) = (r = Inl IndexError)"
    using run by (cases r) (auto simp: image_cb_def)
  have "(r = Inl IndexError) = (select_candidate e s = Inl IndexError)"
  proof (cases "select_candidate e s")
    case (Inl err)
    with r show ?thesis by simp
  next
    case (Inr acc)
    obtain light_distance closest_light stop_line_idx
      where acc: "acc = (light_distance, closest_light, stop_line_idx)" by (cases acc) auto
    show ?thesis
    proof (cases closest_light)
      case None
      with Inr acc r show ?thesis by simp
    next
      case (Some light)
      from select_candidate_in_range [of e s light_distance light stop_line_idx] Inr acc Some
      obtain i where "stop_line_idx = int i" "i < length (stop_line_positions s)" by auto
      then have "py_index (stop_line_positions s) stop_line_idx = Inr (stop_line_positions s ! i)"
        by (simp add: py_index_def)
      with Inr acc Some r show ?thesis by (simp split: option.splits)
    qed
  qed
  with fst_cb have iff: "(fst (image_cb e now s msg) = Inl IndexError) =
       (pose s \<noteq> None \<and> previous_pose s \<noteq> None
          \<and> length (stop_line_positions s) < length (lights s))"
    by (simp add: select_candidate_Inl)
  have pub: "fst (image_cb e now s msg) = Inl IndexError \<longrightarrow>
         published (snd (image_cb e now s msg)) = published s"
    using run keep by (cases r) (auto simp: image_cb_def)
  show ?thesis using iff pub by (simp add: init_def)
qed

text \<open>
  C8, amended, at one stop line and two lights: the frame raises \<open>IndexError\<close> and
  publishes nothing.
\<close>

theorem no_alignment_validation_witness:
  "fst (image_cb demo 0 (approaching [(5, 0)] [TrafficLight 0, TrafficLight 2]) ()) = Inl IndexError
   \<and> published (snd (image_cb demo 0 (approaching [(5, 0)] [TrafficLight 0, TrafficLight 2]) ()))
     = published (approaching [(5, 0)] [TrafficLight 0, TrafficLight 2])"
proof -
  let ?s = "approaching [(5, 0)] [TrafficLight 0, TrafficLight 2]"
  have "pose ?s \<noteq> None \<and> previous_pose ?s \<noteq> None
      \<and> length (stop_line_positions ?s) < length (lights ?s)"
    by (simp add: scenario_defs)
  with no_alignment_validation [of styx_ids "[]" demo 0 ?s "()"] show ?thesis by simp
qed

subsection \<open>A frame before the path\<close>

text \<open>
  C9: a frame processed before the first path update never queries the spatial index.
  The code has no such guard: after two poses and a light list, with a stop line 4 units
  ahead and no path received, the frame calls the classifier, then reaches
  \<open>get_closest_waypoint\<close> with \<open>waypoint_tree = None\<close>; the query raises and nothing is
  published.
\<close>

theorem frame_before_path_queries_missing_index:
  "waypoint_tree (approaching [(5, 0)] [TrafficLight 0]) = None
   \<and> waypoints (approaching [(5, 0)] [TrafficLight 0]) = None
   \<and> fst (image_cb demo 0 (approaching [(5, 0)] [TrafficLight 0]) ())
     = Inl (AttributeError ''query'')
   \<and> classified (snd (image_cb demo 0 (approaching [(5, 0)] [TrafficLight 0]) ())) = [()]
   \<and> published (snd (image_cb demo 0 (approaching [(5, 0)] [TrafficLight 0]) ())) = []"
  by (simp add: frame_defs scenario_defs)

subsection \<open>The no-image branch\<close>

text \<open>
  C10: in every state the node reaches, \<open>has_image\<close> is unset or \<open>True\<close>, never
  \<open>False\<close>; the assignment of the no-image branch of \<open>get_light_state\<close> has never run,
  and no frame makes it run; an image is stored whenever \<open>has_image\<close> is set. The call
  of \<open>get_light_state\<close> at line 208, made on the state \<open>try_image_capture\<close> leaves within
  a frame, returns the classifier's output on the frame's image. So a frame that reaches
  that call (a light selected at a distance below the threshold) calls the classifier
  once on its image, and either returns that output as the state or raises at the query
  of a tree that is not built.
\<close>

theorem no_image_branch_unreachable:
  assumes "reachable e config s"
  shows "has_image s \<noteq> Some False \<and> \<not> prev_light_loc_assigned s
     \<and> (has_image s = Some True \<longrightarrow> camera_image s \<noteq> None)
     \<and> (\<forall>now msg light light_distance.
           fst (get_light_state e
                  (snd (try_image_capture now
                          (s\<lparr>has_image := Some True, camera_image := Some msg\<rparr>)
                          light light_distance))
                  light)
             = Inr (PyInt (get_classification e msg)))
     \<and> (\<forall>now msg light_distance light stop_line_idx.
           select_candidate e s = Inr (light_distance, Some light, stop_line_idx)
           \<and> float_less light_distance (Finite LIGHT_DISTANCE_THRESHOLD) \<longrightarrow>
             classified (snd (process_traffic_lights e now
                 (s\<lparr>has_image := Some True, camera_image := Some msg\<rparr>)))
               = classified s @ [msg]
             \<and> \<not> prev_light_loc_assigned (snd (process_traffic_lights e now
                 (s\<lparr>has_image := Some True, camera_image := Some msg\<rparr>)))
             \<and> (case fst (process_traffic_lights e now
                   (s\<lparr>has_image := Some True, camera_image := Some msg\<rparr>)) of
                  Inl err \<Rightarrow> err = AttributeError ''query'' \<and> waypoint_tree s = None
                | Inr (light_wp, st) \<Rightarrow> st = PyInt (get_classification e msg)))
     \<and> (\<forall>now msg. \<not> prev_light_loc_assigned (snd (image_cb e now s msg)))"
proof -
  note inv = reachable_image_invariant [OF assms]
  have call: "fst (get_light_state e
                  (snd (try_image_capture now
                          (s\<lparr>has_image := Some True, camera_image := Some msg\<rparr>)
                          light light_distance))
                  light)
             = Inr (PyInt (get_classification e msg))" for now msg light light_distance
  proof -
    let ?s1 = "s\<lparr>has_image := Some True, camera_image := Some msg\<rparr>"
    have "has_image ?s1 = Some True" "camera_image ?s1 = Some msg" by simp_all
    from try_image_capture_in_frame [OF this, of now light light_distance]
    obtain s2 where "try_image_capture now ?s1 light light_distance = (Inr (), s2)"
      "has_image s2 = Some True" "camera_image s2 = Some msg" by blast
    then show ?thesis by (simp add: get_light_state_def)
  qed
  have frame: "classified (snd (process_traffic_lights e now
                 (s\<lparr>has_image := Some True, camera_image := Some msg\<rparr>)))
               = classified s @ [msg]
             \<and> \<not> prev_light_loc_assigned (snd (process_traffic_lights e now
                 (s\<lparr>has_image := Some True, camera_image := Some msg\<rparr>)))
             \<and> (case fst (process_traffic_lights e now
                   (s\<lparr>has_image := Some True, camera_image := Some msg\<rparr>)) of
                  Inl err \<Rightarrow> err = AttributeError ''query'' \<and> waypoint_tree s = None
                | Inr (light_wp, st) \<Rightarrow> st = PyInt (get_classification e msg))"
    if sel: "select_candidate e s = Inr (light_distance, Some light, stop_line_idx)"
      and near: "float_less light_distance (Finite LIGHT_DISTANCE_THRESHOLD)"
    for now msg light_distance light stop_line_idx
  proof -
    from select_candidate_in_range [OF sel] obtain i where
      "stop_line_idx = int i" "i < length (stop_line_positions s)" by blast
    then have idx: "py_index (stop_line_positions s) stop_line_idx = Inr (stop_line_positions s ! i)"
      by (simp add: py_index_def)
    from frame_processing [where e=e and now=now and s=s and msg=msg] sel near idx inv
    show ?thesis by (auto split: option.splits)
  qed
  have after: "\<not> prev_light_loc_assigned (snd (image_cb e now s msg))" for now msg
    using inv by (simp add: image_cb_keeps)
  from inv call frame after show ?thesis by blast
qed

text \<open>
  C10, at the node after two poses, a light list, a path and then a camera frame: the
  frame selects the light at distance 4, calls the classifier on its image and returns
  the classifier's output.
\<close>

theorem no_image_branch_unreachable_witness:
  "reachable demo [(5, 0)] (snd (waypoints_cb (approaching [(5, 0)] [TrafficLight 0]) [(5, 0)]))
   \<and> select_candidate demo (snd (waypoints_cb (approaching [(5, 0)] [TrafficLight 0]) [(5, 0)]))
       = Inr (Finite 4, Some (TrafficLight 0), 0)
   \<and> float_less (Finite 4) (Finite LIGHT_DISTANCE_THRESHOLD)
   \<and> classified (snd (process_traffic_lights demo 0
        ((snd (waypoints_cb (approaching [(5, 0)] [TrafficLight 0]) [(5, 0)]))
           \<lparr>has_image := Some True, camera_image := Some ()\<rparr>))) = [()]
   \<and> fst (process_traffic_lights demo 0
        ((snd (waypoints_cb (approaching [(5, 0)] [TrafficLight 0]) [(5, 0)]))
           \<lparr>has_image := Some True, camera_image := Some ()\<rparr>))
       = Inr (0, PyInt (get_classification demo ()))
   \<and> \<not> prev_light_loc_assigned
        (snd (image_cb demo 0
           (snd (waypoints_cb (approaching [(5, 0)] [TrafficLight 0]) [(5, 0)])) ()))"
proof -
  let ?s = "snd (waypoints_cb (approaching [(5, 0)] [TrafficLight 0]) [(5, 0)])"
  have "ids demo = styx_ids" by (simp add: demo_def)
  with reach_init [of demo "[(5, 0)]"]
  have "reachable demo [(5, 0)] (init styx_ids [(5, 0)])" by simp
  then have r: "reachable demo [(5, 0)] ?s"
    unfolding approaching_def by (intro reachable.intros)
  have sel: "select_candidate demo ?s = Inr (Finite 4, Some (TrafficLight 0), 0)"
    by (simp add: select_candidate_def scenario_defs)
  have near: "float_less (Finite 4) (Finite LIGHT_DISTANCE_THRESHOLD)"
    by (simp add: LIGHT_DISTANCE_THRESHOLD_def)
  have res: "fst (process_traffic_lights demo 0
        (?s\<lparr>has_image := Some True, camera_image := Some ()\<rparr>))
       = Inr (0, PyInt (get_classification demo ()))"
    by (simp add: frame_defs scenario_defs)
  have cls: "classified ?s = []" by (simp add: scenario_defs)
  from no_image_branch_unreachable [OF r] sel near
  have "classified (snd (process_traffic_lights demo 0
        (?s\<lparr>has_image := Some True, camera_image := Some ()\<rparr>))) = classified ?s @ [()]"
    and "\<not> prev_light_loc_assigned (snd (image_cb demo 0 ?s ()))"
    by blast+
  with r sel near res cls show ?thesis by simp
qed

end
